theory Spec2Isabelle
  imports Main
begin

section \<open>The node model of snaps-ui\<close>

text \<open>
  The enums of the node schema file. Each member has the string value the source gives
  it (\<^verbatim>\<open>Copyable = 'copyable'\<close>, ...). The members are referred to by their
  qualified names (\<open>NodeType.Panel\<close>), as in the source.
\<close>

datatype NodeType = Copyable | Divider | Heading | Panel | Spinner | Text | Button | Input | Form

datatype ButtonVariants = Primary | Secondary

datatype ButtonTypes = Button | Submit

datatype InputTypes = Text | Number | Password | Search

fun NodeType_value :: "NodeType \<Rightarrow> string" where
  "NodeType_value NodeType.Copyable = ''copyable''"
| "NodeType_value NodeType.Divider = ''divider''"
| "NodeType_value NodeType.Heading = ''heading''"
| "NodeType_value NodeType.Panel = ''panel''"
| "NodeType_value NodeType.Spinner = ''spinner''"
| "NodeType_value NodeType.Text = ''text''"
| "NodeType_value NodeType.Button = ''button''"
| "NodeType_value NodeType.Input = ''input''"
| "NodeType_value NodeType.Form = ''form''"

fun ButtonVariants_value :: "ButtonVariants \<Rightarrow> string" where
  "ButtonVariants_value ButtonVariants.Primary = ''primary''"
| "ButtonVariants_value ButtonVariants.Secondary = ''secondary''"

fun ButtonTypes_value :: "ButtonTypes \<Rightarrow> string" where
  "ButtonTypes_value ButtonTypes.Button = ''button''"
| "ButtonTypes_value ButtonTypes.Submit = ''submit''"

fun InputTypes_value :: "InputTypes \<Rightarrow> string" where
  "InputTypes_value InputTypes.Text = ''text''"
| "InputTypes_value InputTypes.Number = ''number''"
| "InputTypes_value InputTypes.Password = ''password''"
| "InputTypes_value InputTypes.Search = ''search''"

text \<open>
  The typed nodes, as the \<^verbatim>\<open>Infer<typeof ...Struct>\<close> types of the source give
  them. An optional field (\<^verbatim>\<open>optional(...)\<close>) is an \<open>option\<close>: \<open>None\<close> is the
  field left out (\<^verbatim>\<open>undefined\<close>). The \<^verbatim>\<open>type\<close> field of a node is the
  constructor of \<open>Component\<close>; \<open>nodeType\<close> below reads it back.
\<close>

record Button =
  "value" :: string
  variant :: "ButtonVariants option"
  buttonType :: "ButtonTypes option"
  name :: "string option"

record Input =
  "value" :: "string option"
  name :: string
  inputType :: "InputTypes option"
  placeholder :: "string option"
  label :: "string option"

text \<open>\<^verbatim>\<open>FormComponent = Input | Button\<close>: the only children a \<^verbatim>\<open>Form\<close> has.\<close>

datatype FormComponent = FormInput Input | FormButton Button

datatype Component =
    Copyable string
  | Divider
  | Heading string
  | Panel "Component list"
  | Spinner
  | Text string
  | Button Button
  | Input Input
  | Form string "FormComponent list"

fun nodeType :: "Component \<Rightarrow> NodeType" where
  "nodeType (Copyable v) = NodeType.Copyable"
| "nodeType Divider = NodeType.Divider"
| "nodeType (Heading v) = NodeType.Heading"
| "nodeType (Panel children) = NodeType.Panel"
| "nodeType Spinner = NodeType.Spinner"
| "nodeType (Text v) = NodeType.Text"
| "nodeType (Button b) = NodeType.Button"
| "nodeType (Input i) = NodeType.Input"
| "nodeType (Form form_name children) = NodeType.Form"

text \<open>
  A \<^verbatim>\<open>FormComponent\<close> is a \<^verbatim>\<open>Component\<close> (the union type is a subtype); in
  the source the child of a form is passed to \<^verbatim>\<open>constructState\<close> as it is.
\<close>

fun asComponent :: "FormComponent \<Rightarrow> Component" where
  "asComponent (FormInput i) = Input i"
| "asComponent (FormButton b) = Button b"

section \<open>The state reducer\<close>

text \<open>
  Modelled from the spec: the declaration of the type \<^verbatim>\<open>ComponentState\<close> is
  imported by the source and is not part of it. The spec gives it as a mapping from
  string keys to values, each value a string (the value of an input) or a nested mapping
  (the state of one form). The object spread \<^verbatim>\<open>{ ...state, [k]: v }\<close> of the
  source is the map update \<open>state(k \<mapsto> v)\<close>.
\<close>

datatype StateValue = Str string | Nested "string \<Rightarrow> StateValue option"

type_synonym ComponentState = "string \<Rightarrow> StateValue option"

text \<open>The recursion of \<open>constructState\<close> descends into children; this counts the descent.\<close>

fun nesting :: "Component \<Rightarrow> nat" where
  "nesting (Panel children) = Suc (sum_list (map nesting children))"
| "nesting (Form form_name children) = 1"
| "nesting _ = 0"

text \<open>
  \<^verbatim>\<open>constructState\<close> of \<^verbatim>\<open>interface/utils.ts\<close>. The three \<^verbatim>\<open>if\<close>s on the
  node type are the first three equations, the final \<^verbatim>\<open>return state\<close> the other
  six. \<^verbatim>\<open>children.reduce(f, init)\<close> is \<open>foldl f init children\<close>, and
  \<^verbatim>\<open>component.value ?? ''\<close> is the case on the optional value.
\<close>

function constructState :: "ComponentState \<Rightarrow> Component \<Rightarrow> ComponentState" where
  "constructState state (Panel children) =
     foldl (\<lambda>acc node. constructState acc node) state children"
| "constructState state (Form form_name children) =
     state(form_name \<mapsto>
       Nested (foldl (\<lambda>acc node. constructState acc (asComponent node)) Map.empty children))"
| "constructState state (Input i) =
     state(Input.name i \<mapsto> Str (case Input.value i of None \<Rightarrow> [] | Some v \<Rightarrow> v))"
| "constructState state (Copyable v) = state"
| "constructState state Divider = state"
| "constructState state (Heading v) = state"
| "constructState state Spinner = state"
| "constructState state (Text v) = state"
| "constructState state (Button b) = state"
  by pat_completeness auto
termination
proof (relation "measure (\<lambda>(s, c). nesting c)")
  fix state :: ComponentState and children :: "Component list" and a x
  assume "x \<in> set children"
  then have "nesting x \<le> sum_list (map nesting children)"
    by (induction children) auto
  then show "((a, x), state, Panel children) \<in> measure (\<lambda>(s, c). nesting c)"
    by simp
next
  fix state :: ComponentState and form_name children a x
  show "((a, asComponent x), state, Form form_name children) \<in> measure (\<lambda>(s, c). nesting c)"
    by (cases x) simp_all
qed simp

section \<open>The node schema\<close>

subsection \<open>Raw values\<close>

text \<open>
  A raw (untrusted) value is a JSON value. An object is the list of its own properties in
  the order \<^verbatim>\<open>Object.keys\<close> lists them; a JavaScript object has each key once, and
  reading a property takes the entry of that key. \<^verbatim>\<open>undefined\<close>, the value of a
  property that is absent, is \<open>None\<close> of \<open>Json option\<close>.
\<close>

datatype Json =
    JNull
  | JBoolean bool
  | JNumber int
  | JString string
  | JArray "Json list"
  | JObject "(string \<times> Json) list"

text \<open>
  A failure of a validation, with the fields of the failures of the superstruct package
  that the properties below speak of: the value that was refused, the type of the struct
  that refused it, and the path from the root to that value (the keys of objects and the
  indices of arrays on the way).
\<close>

datatype Key = Field string | Index nat

record Failure =
  "value" :: "Json option"
  type :: string
  path :: "Key list"

subsection \<open>Structs\<close>

text \<open>
  The source declares its schema with the combinators of the superstruct package
  (\<^verbatim>\<open>string\<close>, \<^verbatim>\<open>literal\<close>, \<^verbatim>\<open>unknown\<close>, \<^verbatim>\<open>optional\<close>, \<^verbatim>\<open>union\<close>,
  \<^verbatim>\<open>array\<close>, \<^verbatim>\<open>object\<close>, \<^verbatim>\<open>lazy\<close>, \<^verbatim>\<open>assign\<close>). The package is a
  dependency of the repository and not part of its sources; the combinators are modelled
  here after the package (version 1). A struct is a term of the type \<open>Struct\<close>, one
  constructor for each combinator, and \<open>run\<close> below validates a value against a struct.
  \<open>SNever\<close> is \<^verbatim>\<open>never()\<close>, which \<^verbatim>\<open>object\<close> uses for the keys that its
  schema does not know. \<open>SLazy\<close> is the one lazy struct of the source,
  \<^verbatim>\<open>lazy(() => ComponentStruct)\<close>.
\<close>

datatype Struct =
    SString
  | SLiteral string
  | SNever
  | SUnknown
  | SOptional Struct
  | SUnion "Struct list"
  | SArray Struct
  | SObject "(string \<times> Struct) list"
  | SLazy

text \<open>
  \<^verbatim>\<open>assign(A, B)\<close> is \<^verbatim>\<open>object(Object.assign({}, A.schema, B.schema))\<close>: a key of
  \<open>B\<close> that \<open>A\<close> has already replaces the struct of \<open>A\<close> at its place, a new key goes
  to the end.
\<close>

fun schema :: "Struct \<Rightarrow> (string \<times> Struct) list" where
  "schema (SObject s) = s"
| "schema _ = []"

fun set_property :: "string \<Rightarrow> 'a \<Rightarrow> (string \<times> 'a) list \<Rightarrow> (string \<times> 'a) list" where
  "set_property k v [] = [(k, v)]"
| "set_property k v ((k', v') # ps) =
     (if k' = k then (k, v) # ps else (k', v') # set_property k v ps)"

fun Object_assign :: "(string \<times> 'a) list \<Rightarrow> (string \<times> 'a) list \<Rightarrow> (string \<times> 'a) list" where
  "Object_assign target [] = target"
| "Object_assign target ((k, v) # source) = Object_assign (set_property k v target) source"

definition assign :: "Struct \<Rightarrow> Struct \<Rightarrow> Struct" where
  "assign A B = SObject (Object_assign (Object_assign [] (schema A)) (schema B))"

text \<open>The structs of the source, in the order and with the names of their declarations.\<close>

definition NodeStruct :: Struct where
  "NodeStruct = SObject [(''type'', SString)]"

definition ParentStruct :: Struct where
  "ParentStruct = assign NodeStruct (SObject [(''children'', SArray SLazy)])"

definition LiteralStruct :: Struct where
  "LiteralStruct = assign NodeStruct (SObject [(''value'', SUnknown)])"

definition CopyableStruct :: Struct where
  "CopyableStruct = assign LiteralStruct (SObject
     [(''type'', SLiteral (NodeType_value NodeType.Copyable)),
      (''value'', SString)])"

definition DividerStruct :: Struct where
  "DividerStruct = assign NodeStruct (SObject
     [(''type'', SLiteral (NodeType_value NodeType.Divider))])"

definition HeadingStruct :: Struct where
  "HeadingStruct = assign LiteralStruct (SObject
     [(''type'', SLiteral (NodeType_value NodeType.Heading)),
      (''value'', SString)])"

definition PanelStruct :: Struct where
  "PanelStruct = assign ParentStruct (SObject
     [(''type'', SLiteral (NodeType_value NodeType.Panel))])"

definition SpinnerStruct :: Struct where
  "SpinnerStruct = assign NodeStruct (SObject
     [(''type'', SLiteral (NodeType_value NodeType.Spinner))])"

definition TextStruct :: Struct where
  "TextStruct = assign LiteralStruct (SObject
     [(''type'', SLiteral (NodeType_value NodeType.Text)),
      (''value'', SString)])"

definition ButtonStruct :: Struct where
  "ButtonStruct = assign LiteralStruct (SObject
     [(''type'', SLiteral (NodeType_value NodeType.Button)),
      (''value'', SString),
      (''variant'', SOptional (SUnion
         [SLiteral (ButtonVariants_value ButtonVariants.Primary),
          SLiteral (ButtonVariants_value ButtonVariants.Secondary)])),
      (''buttonType'', SOptional (SUnion
         [SLiteral (ButtonTypes_value ButtonTypes.Button),
          SLiteral (ButtonTypes_value ButtonTypes.Submit)])),
      (''name'', SOptional SString)])"

definition InputStruct :: Struct where
  "InputStruct = assign NodeStruct (SObject
     [(''type'', SLiteral (NodeType_value NodeType.Input)),
      (''value'', SOptional SString),
      (''name'', SString),
      (''inputType'', SOptional (SUnion
         [SLiteral (InputTypes_value InputTypes.Text),
          SLiteral (InputTypes_value InputTypes.Password),
          SLiteral (InputTypes_value InputTypes.Number),
          SLiteral (InputTypes_value InputTypes.Search)])),
      (''placeholder'', SOptional SString),
      (''label'', SOptional SString)])"

definition FormComponentStruct :: Struct where
  "FormComponentStruct = SUnion [InputStruct, ButtonStruct]"

definition FormStruct :: Struct where
  "FormStruct = assign NodeStruct (SObject
     [(''type'', SLiteral (NodeType_value NodeType.Form)),
      (''children'', SArray FormComponentStruct),
      (''name'', SString)])"

definition ComponentStruct :: Struct where
  "ComponentStruct = SUnion
     [CopyableStruct, DividerStruct, HeadingStruct, PanelStruct, SpinnerStruct,
      TextStruct, ButtonStruct, InputStruct, FormStruct]"

subsection \<open>Validation\<close>

text \<open>
  \<open>isObject\<close> is the test of the package, \<^verbatim>\<open>typeof x === 'object' && x != null\<close>,
  which holds of arrays too. The own enumerable properties of an array are its indices,
  written in decimal. \<open>property v k\<close> is \<^verbatim>\<open>v[k]\<close> for an own enumerable property
  \<open>k\<close>; the keys that the schemas of this file read (\<^verbatim>\<open>type\<close>, \<^verbatim>\<open>value\<close>,
  \<^verbatim>\<open>children\<close>, \<^verbatim>\<open>name\<close>, ...) are not inherited properties of objects or
  arrays.
\<close>

fun string_of_nat :: "nat \<Rightarrow> string" where
  "string_of_nat n =
     (if n < 10 then [''0123456789'' ! n]
      else string_of_nat (n div 10) @ [''0123456789'' ! (n mod 10)])"

declare string_of_nat.simps [simp del]

fun isObject :: "Json option \<Rightarrow> bool" where
  "isObject (Some (JObject kvs)) = True"
| "isObject (Some (JArray xs)) = True"
| "isObject _ = False"

fun Object_entries :: "Json option \<Rightarrow> (string \<times> Json) list" where
  "Object_entries (Some (JObject kvs)) = kvs"
| "Object_entries (Some (JArray xs)) = map (\<lambda>i. (string_of_nat i, xs ! i)) [0..<length xs]"
| "Object_entries _ = []"

definition Object_keys :: "Json option \<Rightarrow> string list" where
  "Object_keys v = map fst (Object_entries v)"

definition property :: "Json option \<Rightarrow> string \<Rightarrow> Json option" where
  "property v k = map_of (Object_entries v) k"

definition unknowns :: "(string \<times> Struct) list \<Rightarrow> Json option \<Rightarrow> string list" where
  "unknowns knowns v = filter (\<lambda>k. k \<notin> set (map fst knowns)) (Object_keys v)"

text \<open>
  Termination of \<open>run\<close>: an entry of an object or an array is smaller than the value it
  is in, and on the same value \<open>run\<close> goes from a struct to a part of it, or from the
  lazy struct to \<open>ComponentStruct\<close>, whose members are all object structs.
\<close>

fun weight :: "Struct \<Rightarrow> nat" where
  "weight (SOptional S) = Suc (weight S)"
| "weight (SUnion Ss) = Suc (sum_list (map weight Ss))"
| "weight SLazy = 2"
| "weight _ = 0"

fun vsize :: "Json option \<Rightarrow> nat" where
  "vsize None = 0"
| "vsize (Some j) = Suc (size j)"

lemma size_JArray_member: "x \<in> set xs \<Longrightarrow> size x < size (JArray xs)"
  by (induction xs) auto

lemma size_JObject_member: "(k, x) \<in> set kvs \<Longrightarrow> size x < size (JObject kvs)"
  by (induction kvs) auto

lemma property_smaller: "isObject v \<Longrightarrow> vsize (property v k) < vsize v"
proof (cases "property v k")
  case None
  assume "isObject v"
  then show ?thesis using None by (cases v) simp_all
next
  case (Some x)
  assume obj: "isObject v"
  from Some have mem: "(k, x) \<in> set (Object_entries v)"
    by (simp add: property_def map_of_SomeD)
  from obj show ?thesis
  proof (cases v rule: isObject.cases)
    case (1 kvs)
    then show ?thesis using mem Some size_JObject_member [of k x kvs] by simp
  next
    case (2 xs)
    with mem have "x \<in> set xs" by auto
    then show ?thesis using 2 Some size_JArray_member [of x xs] by simp
  qed (use obj in simp_all)
qed

text \<open>
  \<open>run struct path value\<close> is the list of the failures that the generator \<^verbatim>\<open>run\<close>
  of the package yields, in its order: first the failures of the validator of the
  struct, then for each entry of the struct the failures of its struct on its value, at
  the path extended by its key. The list is empty if and only if the value is valid.
  \<^item> \<^verbatim>\<open>string()\<close>, \<^verbatim>\<open>literal(c)\<close>, \<^verbatim>\<open>never()\<close>, \<^verbatim>\<open>unknown()\<close> have a
    validator and no entries.
  \<^item> \<^verbatim>\<open>optional(S)\<close> accepts \<^verbatim>\<open>undefined\<close> and is \<open>S\<close> on any other value.
  \<^item> The validator of \<^verbatim>\<open>union(Structs)\<close> runs each member on the value at the
    same path; if one member yields no failure it yields none, otherwise it yields its
    own failure followed by all the failures of all the members.
  \<^item> \<^verbatim>\<open>array(Element)\<close> requires an array; its entries are the elements, under
    their indices.
  \<^item> \<^verbatim>\<open>object(schema)\<close> requires an object; its entries are the keys of the
    schema, in the order of the schema, each with the value the object has there
    (\<^verbatim>\<open>undefined\<close> if it has none), followed by the keys of the object that the
    schema does not know, each against \<^verbatim>\<open>never()\<close>.
  \<^item> The lazy struct validates as \<open>ComponentStruct\<close>.
\<close>

function run :: "Struct \<Rightarrow> Key list \<Rightarrow> Json option \<Rightarrow> Failure list" where
  "run SString p v =
     (case v of Some (JString s) \<Rightarrow> [] | _ \<Rightarrow> [\<lparr>Failure.value = v, type = ''string'', path = p\<rparr>])"
| "run (SLiteral c) p v =
     (if v = Some (JString c) then [] else [\<lparr>Failure.value = v, type = ''literal'', path = p\<rparr>])"
| "run SNever p v = [\<lparr>Failure.value = v, type = ''never'', path = p\<rparr>]"
| "run SUnknown p v = []"
| "run (SOptional S) p v = (if v = None then [] else run S p v)"
| "run (SUnion Structs) p v =
     (let tuples = map (\<lambda>S. run S p v) Structs
      in if [] \<in> set tuples then []
         else \<lparr>Failure.value = v, type = ''union'', path = p\<rparr> # concat tuples)"
| "run (SArray Element) p v =
     (case v of
        Some (JArray xs) \<Rightarrow>
          concat (map (\<lambda>i. run Element (p @ [Index i]) (Some (xs ! i))) [0..<length xs])
      | _ \<Rightarrow> [\<lparr>Failure.value = v, type = ''array'', path = p\<rparr>])"
| "run (SObject knowns) p v =
     (if isObject v
      then concat (map (\<lambda>(k, S). run S (p @ [Field k]) (property v k)) knowns)
         @ concat (map (\<lambda>k. run SNever (p @ [Field k]) (property v k)) (unknowns knowns v))
      else [\<lparr>Failure.value = v, type = ''object'', path = p\<rparr>])"
| "run SLazy p v = run ComponentStruct p v"
  by pat_completeness auto
termination
proof (relation "inv_image (less_than <*lex*> less_than) (\<lambda>(S, p, v). (vsize v, weight S))",
    goal_cases)
  case 1
  show ?case by (intro wf_inv_image wf_lex_prod wf_less_than)
next
  case (2 S p v)
  show ?case by simp
next
  case (3 Structs p v S)
  then have "weight S \<le> sum_list (map weight Structs)"
    by (induction Structs) auto
  then show ?case by simp
next
  case (4 Element p v j xs i)
  then have "xs ! i \<in> set xs" by simp
  then show ?case using 4 size_JArray_member [of "xs ! i" xs] by simp
next
  case (5 knowns p v kS k S)
  then show ?case using property_smaller [of v k] by simp
next
  case (6 knowns p v k)
  then show ?case using property_smaller [of v k] by simp
next
  case (7 p v)
  have "weight ComponentStruct = 1"
    by (simp add: ComponentStruct_def CopyableStruct_def DividerStruct_def HeadingStruct_def
        PanelStruct_def SpinnerStruct_def TextStruct_def ButtonStruct_def InputStruct_def
        FormStruct_def assign_def)
  then show ?case by simp
qed

text \<open>
  \<^verbatim>\<open>validate(value, struct)\<close> of the package: the value itself if \<open>run\<close> yields no
  failure, otherwise an error which carries the first failure (its path, type and value
  are the ones the error reports) and the list of all failures. \<^verbatim>\<open>is(value, struct)\<close>
  tells whether validation succeeds.
\<close>

record StructError =
  failure :: Failure
  failures :: "Failure list"

definition validate :: "Json \<Rightarrow> Struct \<Rightarrow> StructError + Json" where
  "validate v struct =
     (case run struct [] (Some v) of
        [] \<Rightarrow> Inr v
      | f # fs \<Rightarrow> Inl \<lparr>failure = f, failures = f # fs\<rparr>)"

definition is_value :: "Json \<Rightarrow> Struct \<Rightarrow> bool" where
  "is_value v struct = (case validate v struct of Inl error \<Rightarrow> False | Inr typed \<Rightarrow> True)"

text \<open>
  Vocabulary of the properties below. \<open>visitedNames\<close> lists the keys that the reducer
  writes into the accumulator it is given: the name of an input, the name of a form (the
  inputs of the form go to the nested state, not to this accumulator), and the keys of
  the children of a panel. \<open>inputNames\<close> lists the names of the inputs among the
  children of a form.
\<close>

fun visitedNames :: "Component \<Rightarrow> string list" where
  "visitedNames (Panel children) = concat (map visitedNames children)"
| "visitedNames (Form form_name children) = [form_name]"
| "visitedNames (Input i) = [Input.name i]"
| "visitedNames _ = []"

fun inputNames :: "FormComponent list \<Rightarrow> string list" where
  "inputNames [] = []"
| "inputNames (FormInput i # children) = Input.name i # inputNames children"
| "inputNames (FormButton b # children) = inputNames children"

text \<open>The struct that declares the field contract of each node kind.\<close>

fun kindStruct :: "NodeType \<Rightarrow> Struct" where
  "kindStruct NodeType.Copyable = CopyableStruct"
| "kindStruct NodeType.Divider = DividerStruct"
| "kindStruct NodeType.Heading = HeadingStruct"
| "kindStruct NodeType.Panel = PanelStruct"
| "kindStruct NodeType.Spinner = SpinnerStruct"
| "kindStruct NodeType.Text = TextStruct"
| "kindStruct NodeType.Button = ButtonStruct"
| "kindStruct NodeType.Input = InputStruct"
| "kindStruct NodeType.Form = FormStruct"



section \<open>Properties of the state reducer\<close>

subsection \<open>Nodes without state\<close>

text \<open>
  C8. For every component of kind Divider, Spinner, Copyable, Heading, Text or Button and
  every seed state, \<open>constructState\<close> returns the seed unchanged.
\<close>

theorem constructState_other_kinds_unchanged:
  assumes "nodeType component \<in> {NodeType.Divider, NodeType.Spinner, NodeType.Copyable,
             NodeType.Heading, NodeType.Text, NodeType.Button}"
  shows "constructState state component = state"
  using assms by (cases component) simp_all

theorem constructState_other_kinds_unchanged_witness:
  "nodeType (Button \<lparr>Button.value = ''Go'', variant = None, buttonType = None, name = Some ''b''\<rparr>)
     \<in> {NodeType.Divider, NodeType.Spinner, NodeType.Copyable,
         NodeType.Heading, NodeType.Text, NodeType.Button}
   \<and> constructState [''a'' \<mapsto> Str ''x'']
        (Button \<lparr>Button.value = ''Go'', variant = None, buttonType = None, name = Some ''b''\<rparr>)
      = [''a'' \<mapsto> Str ''x'']"
  using constructState_other_kinds_unchanged
    [of "Button \<lparr>Button.value = ''Go'', variant = None, buttonType = None, name = Some ''b''\<rparr>"
        "[''a'' \<mapsto> Str ''x'']"]
  by simp

subsection \<open>Forms\<close>

lemma foldl_form_children_dom:
  "dom (foldl (\<lambda>acc node. constructState acc (asComponent node)) state children)
     = dom state \<union> set (inputNames children)"
  by (induction children arbitrary: state rule: inputNames.induct) auto

text \<open>
  C1. For every form and every seed state, \<open>constructState\<close> folds over the children of
  the form from the empty accumulator, not from the seed, and stores the result under the
  name of the form in the seed. So a value that the seed held under that name is replaced
  as a whole: the result is the same whatever that value was.
\<close>

theorem constructState_Form_replaces:
  "constructState state (Form form_name children)
     = state(form_name \<mapsto>
         Nested (foldl (\<lambda>acc node. constructState acc (asComponent node)) Map.empty children))
   \<and> constructState (state(form_name \<mapsto> previous)) (Form form_name children)
     = constructState state (Form form_name children)"
  by simp

theorem constructState_Form_replaces_witness:
  "constructState [''f'' \<mapsto> Nested [''old'' \<mapsto> Str ''kept?'']]
     (Form ''f'' [FormInput \<lparr>Input.value = Some ''x'', name = ''a'', inputType = None,
                              placeholder = None, label = None\<rparr>])
   = [''f'' \<mapsto> Nested [''a'' \<mapsto> Str ''x'']]"
  using constructState_Form_replaces
    [of Map.empty "''f''"
        "[FormInput \<lparr>Input.value = Some ''x'', name = ''a'', inputType = None,
                      placeholder = None, label = None\<rparr>]"
        "Nested [''old'' \<mapsto> Str ''kept?'']"]
  by simp

text \<open>
  C4. For every form derived into the empty seed, the result has exactly one key, the
  name of the form; its value is a nested mapping whose keys are exactly the names of the
  inputs among the children of the form. A button among the children, named or not,
  contributes nothing: the result is the same without it.
\<close>

theorem constructState_Form_keys:
  "dom (constructState Map.empty (Form form_name children)) = {form_name}
   \<and> (\<exists>nested. constructState Map.empty (Form form_name children) form_name = Some (Nested nested)
         \<and> dom nested = set (inputNames children))
   \<and> constructState state (Form form_name (before @ FormButton b # after))
     = constructState state (Form form_name (before @ after))"
  by (simp add: foldl_form_children_dom)

theorem constructState_Form_keys_witness:
  "dom (constructState Map.empty
     (Form ''f'' [FormInput \<lparr>Input.value = Some ''x'', name = ''a'', inputType = None,
                              placeholder = None, label = None\<rparr>,
                  FormButton \<lparr>Button.value = ''Go'', variant = None, buttonType = None,
                               name = Some ''b''\<rparr>])) = {''f''}
   \<and> (\<exists>nested. constructState Map.empty
         (Form ''f'' [FormInput \<lparr>Input.value = Some ''x'', name = ''a'', inputType = None,
                                  placeholder = None, label = None\<rparr>,
                      FormButton \<lparr>Button.value = ''Go'', variant = None, buttonType = None,
                                   name = Some ''b''\<rparr>]) ''f'' = Some (Nested nested)
         \<and> dom nested = {''a''})"
  using constructState_Form_keys
    [of "''f''"
        "[FormInput \<lparr>Input.value = Some ''x'', name = ''a'', inputType = None,
                      placeholder = None, label = None\<rparr>,
          FormButton \<lparr>Button.value = ''Go'', variant = None, buttonType = None,
                       name = Some ''b''\<rparr>]"
        Map.empty "[]" "\<lparr>Button.value = ''Go'', variant = None, buttonType = None,
                       name = Some ''b''\<rparr>" "[]"]
  by simp

subsection \<open>Panels\<close>

text \<open>
  C3. For every panel and every seed state, \<open>constructState\<close> folds over the children
  from left to right and passes the accumulator from each child to the next. For a panel
  of two inputs with the same name, the value under that name is the one of the second
  input.
\<close>

theorem constructState_Panel_in_order:
  assumes "Input.name first = Input.name second"
  shows "constructState state (Panel children) = foldl constructState state children
   \<and> constructState state (Panel (child # children))
     = constructState (constructState state child) (Panel children)
   \<and> constructState state (Panel [Input first, Input second]) (Input.name first)
     = Some (Str (case Input.value second of None \<Rightarrow> [] | Some v \<Rightarrow> v))"
  using assms by simp

theorem constructState_Panel_in_order_witness:
  "constructState Map.empty
     (Panel [Input \<lparr>Input.value = Some ''x'', name = ''a'', inputType = None,
                     placeholder = None, label = None\<rparr>,
             Input \<lparr>Input.value = Some ''y'', name = ''a'', inputType = None,
                     placeholder = None, label = None\<rparr>]) ''a''
   = Some (Str ''y'')"
  using constructState_Panel_in_order
    [of "\<lparr>Input.value = Some ''x'', name = ''a'', inputType = None,
           placeholder = None, label = None\<rparr>"
        "\<lparr>Input.value = Some ''y'', name = ''a'', inputType = None,
           placeholder = None, label = None\<rparr>"
        Map.empty "[]" Divider]
  by simp

subsection \<open>The seed is kept\<close>

lemma foldl_constructState_frame:
  assumes "\<And>acc node. node \<in> set children \<Longrightarrow> key \<notin> set (visitedNames node)
             \<Longrightarrow> constructState acc node key = acc key"
    and "key \<notin> set (concat (map visitedNames children))"
  shows "foldl constructState state children key = state key"
  using assms by (induction children arbitrary: state) auto

lemma constructState_frame:
  "key \<notin> set (visitedNames component) \<Longrightarrow> constructState state component key = state key"
proof (induction state component rule: constructState.induct)
  case (1 state children)
  then show ?case
    using foldl_constructState_frame [of children key state] by simp
qed auto

lemma foldl_constructState_dom:
  assumes "\<And>acc node. node \<in> set children \<Longrightarrow> dom acc \<subseteq> dom (constructState acc node)"
  shows "dom state \<subseteq> dom (foldl constructState state children)"
  using assms
proof (induction children arbitrary: state)
  case Nil
  then show ?case by simp
next
  case (Cons c cs)
  have "dom state \<subseteq> dom (constructState state c)"
    using Cons.prems by simp
  moreover have "dom (constructState state c)
      \<subseteq> dom (foldl constructState (constructState state c) cs)"
    using Cons.IH Cons.prems by simp
  ultimately show ?case by auto
qed

lemma constructState_dom:
  "dom state \<subseteq> dom (constructState state component)"
proof (induction state component rule: constructState.induct)
  case (1 state children)
  then show ?case
    using foldl_constructState_dom [of children state] by simp
qed auto

text \<open>
  C7. For every seed state and every component, every key of the seed is a key of the
  result (the reducer adds or overwrites keys and deletes none), and every key that is
  not the name of an input or form visited in the scope of the accumulator keeps the
  value the seed gave it.
\<close>

theorem constructState_keeps_seed:
  "dom state \<subseteq> dom (constructState state component)
   \<and> (\<forall>key. key \<notin> set (visitedNames component)
         \<longrightarrow> constructState state component key = state key)"
  using constructState_dom constructState_frame by blast

theorem constructState_keeps_seed_witness:
  "dom [''old'' \<mapsto> Str ''v'', ''a'' \<mapsto> Str ''w'']
     \<subseteq> dom (constructState [''old'' \<mapsto> Str ''v'', ''a'' \<mapsto> Str ''w'']
           (Panel [Text ''Hi'',
                   Input \<lparr>Input.value = None, name = ''a'', inputType = None,
                           placeholder = None, label = None\<rparr>]))
   \<and> constructState [''old'' \<mapsto> Str ''v'', ''a'' \<mapsto> Str ''w'']
        (Panel [Text ''Hi'',
                Input \<lparr>Input.value = None, name = ''a'', inputType = None,
                        placeholder = None, label = None\<rparr>]) ''old''
     = Some (Str ''v'')"
  using constructState_keeps_seed
    [of "[''old'' \<mapsto> Str ''v'', ''a'' \<mapsto> Str ''w'']"
        "Panel [Text ''Hi'',
                Input \<lparr>Input.value = None, name = ''a'', inputType = None,
                        placeholder = None, label = None\<rparr>]"]
  by simp

subsection \<open>The scenario of the spec\<close>

text \<open>
  The panel of a text and a form \<^verbatim>\<open>f\<close> with an input \<^verbatim>\<open>a\<close> and a button
  \<^verbatim>\<open>b\<close> derives, from the empty seed, to \<^verbatim>\<open>{ f: { a: "x" } }\<close>.
\<close>

lemma scenario_state:
  "constructState Map.empty
     (Panel [Text ''Hi'',
             Form ''f'' [FormInput \<lparr>Input.value = Some ''x'', name = ''a'', inputType = None,
                                    placeholder = None, label = None\<rparr>,
                         FormButton \<lparr>Button.value = ''Go'', variant = None, buttonType = None,
                                     name = Some ''b''\<rparr>]])
   = [''f'' \<mapsto> Nested [''a'' \<mapsto> Str ''x'']]"
  by simp

section \<open>Properties of the node schema\<close>

subsection \<open>When a value is valid\<close>

lemma is_value_run: "is_value v S \<longleftrightarrow> run S [] (Some v) = []"
  by (simp add: is_value_def validate_def split: list.splits)

lemma run_SUnion_Nil: "run (SUnion Ss) p v = [] \<longleftrightarrow> (\<exists>S \<in> set Ss. run S p v = [])"
proof -
  have "[] \<in> set (map (\<lambda>S. run S p v) Ss) \<longleftrightarrow> (\<exists>S \<in> set Ss. run S p v = [])"
    by (simp add: image_iff) metis
  then show ?thesis by (simp add: Let_def)
qed

lemma run_SUnion_Cons:
  "run (SUnion Ss) p v \<noteq> [] \<Longrightarrow>
   run (SUnion Ss) p v = \<lparr>Failure.value = v, type = ''union'', path = p\<rparr> # concat (map (\<lambda>S. run S p v) Ss)"
  by (cases "[] \<in> set (map (\<lambda>S. run S p v) Ss)") (simp_all add: Let_def)

lemma run_SObject_Nil:
  "run (SObject knowns) p v = [] \<longleftrightarrow>
     isObject v
     \<and> (\<forall>kS \<in> set knowns. run (snd kS) (p @ [Field (fst kS)]) (property v (fst kS)) = [])
     \<and> unknowns knowns v = []"
proof -
  have never: "concat (map (\<lambda>k. run SNever (p @ [Field k]) (property v k)) us) = [] \<longleftrightarrow> us = []"
    for us by (cases us) simp_all
  show ?thesis by (simp add: never case_prod_beta)
qed

lemma concat_map_upt_Nil:
  "concat (map f [0..<n]) = [] \<longleftrightarrow> (\<forall>i < n. f i = [])"
  by (induction n) (auto simp: less_Suc_eq)

lemma run_SArray_Nil:
  "run (SArray E) p v = [] \<longleftrightarrow>
     (\<exists>xs. v = Some (JArray xs) \<and> (\<forall>i < length xs. run E (p @ [Index i]) (Some (xs ! i)) = []))"
proof (cases v)
  case None
  then show ?thesis by simp
next
  case (Some j)
  then show ?thesis by (cases j) (simp_all add: concat_map_upt_Nil del: concat_eq_Nil_conv)
qed

lemma run_path_irrelevant: "run S p v = [] \<longleftrightarrow> run S q v = []"
proof (induction S p v arbitrary: q rule: run.induct)
  case (1 p v)
  show ?case by (simp split: option.splits Json.splits)
next
  case (2 c p v)
  show ?case by simp
next
  case (3 p v)
  show ?case by simp
next
  case (4 p v)
  show ?case by simp
next
  case (5 S p v)
  show ?case using "5.IH" [of q] by simp
next
  case (6 Structs p v)
  have "run S p v = [] \<longleftrightarrow> run S q v = []" if "S \<in> set Structs" for S
    using "6.IH" [OF that] .
  then show ?case unfolding run_SUnion_Nil by blast
next
  case (7 Element p v)
  have "run Element (p @ [Index i]) (Some (xs ! i)) = []
      \<longleftrightarrow> run Element (q @ [Index i]) (Some (xs ! i)) = []"
    if "v = Some (JArray xs)" "i < length xs" for xs i
  proof -
    from that have "i \<in> set [0..<length xs]" by simp
    from "7.IH" [OF that(1) refl this] show ?thesis .
  qed
  then show ?case unfolding run_SArray_Nil by auto
next
  case (8 knowns p v)
  have "run S (p @ [Field k]) (property v k) = [] \<longleftrightarrow> run S (q @ [Field k]) (property v k) = []"
    if "isObject v" "(k, S) \<in> set knowns" for k S
    using "8.IH"(1) [OF that(1) that(2) refl] .
  then show ?case unfolding run_SObject_Nil by (metis prod.collapse)
next
  case (9 p v)
  show ?case using "9.IH" [of q] by simp
qed

subsection \<open>The schemas of the nine kinds\<close>

text \<open>The schema that \<^verbatim>\<open>assign\<close> computes for each struct of the source.\<close>

lemma CopyableStruct_eq:
  "CopyableStruct = SObject [(''type'', SLiteral ''copyable''), (''value'', SString)]"
  by (simp add: CopyableStruct_def LiteralStruct_def NodeStruct_def assign_def)

lemma DividerStruct_eq: "DividerStruct = SObject [(''type'', SLiteral ''divider'')]"
  by (simp add: DividerStruct_def NodeStruct_def assign_def)

lemma HeadingStruct_eq:
  "HeadingStruct = SObject [(''type'', SLiteral ''heading''), (''value'', SString)]"
  by (simp add: HeadingStruct_def LiteralStruct_def NodeStruct_def assign_def)

lemma PanelStruct_eq:
  "PanelStruct = SObject [(''type'', SLiteral ''panel''), (''children'', SArray SLazy)]"
  by (simp add: PanelStruct_def ParentStruct_def NodeStruct_def assign_def)

lemma SpinnerStruct_eq: "SpinnerStruct = SObject [(''type'', SLiteral ''spinner'')]"
  by (simp add: SpinnerStruct_def NodeStruct_def assign_def)

lemma TextStruct_eq:
  "TextStruct = SObject [(''type'', SLiteral ''text''), (''value'', SString)]"
  by (simp add: TextStruct_def LiteralStruct_def NodeStruct_def assign_def)

lemma ButtonStruct_eq:
  "ButtonStruct = SObject
     [(''type'', SLiteral ''button''),
      (''value'', SString),
      (''variant'', SOptional (SUnion [SLiteral ''primary'', SLiteral ''secondary''])),
      (''buttonType'', SOptional (SUnion [SLiteral ''button'', SLiteral ''submit''])),
      (''name'', SOptional SString)]"
  by (simp add: ButtonStruct_def LiteralStruct_def NodeStruct_def assign_def)

lemma InputStruct_eq:
  "InputStruct = SObject
     [(''type'', SLiteral ''input''),
      (''value'', SOptional SString),
      (''name'', SString),
      (''inputType'', SOptional (SUnion
         [SLiteral ''text'', SLiteral ''password'', SLiteral ''number'', SLiteral ''search''])),
      (''placeholder'', SOptional SString),
      (''label'', SOptional SString)]"
  by (simp add: InputStruct_def NodeStruct_def assign_def)

lemma FormStruct_eq:
  "FormStruct = SObject
     [(''type'', SLiteral ''form''),
      (''children'', SArray FormComponentStruct),
      (''name'', SString)]"
  by (simp add: FormStruct_def NodeStruct_def assign_def)

lemmas kind_structs =
  CopyableStruct_eq DividerStruct_eq HeadingStruct_eq PanelStruct_eq SpinnerStruct_eq
  TextStruct_eq ButtonStruct_eq InputStruct_eq FormStruct_eq

subsection \<open>The union of the kinds\<close>

lemma NodeType_UNIV:
  "UNIV = {NodeType.Copyable, NodeType.Divider, NodeType.Heading, NodeType.Panel,
           NodeType.Spinner, NodeType.Text, NodeType.Button, NodeType.Input, NodeType.Form}"
  by (auto intro: NodeType.exhaust)

lemma ComponentStruct_members: "ComponentStruct = SUnion (map kindStruct
    [NodeType.Copyable, NodeType.Divider, NodeType.Heading, NodeType.Panel,
     NodeType.Spinner, NodeType.Text, NodeType.Button, NodeType.Input, NodeType.Form])"
  by (simp add: ComponentStruct_def)

lemma run_ComponentStruct_Nil:
  "run ComponentStruct p v = [] \<longleftrightarrow> (\<exists>t. run (kindStruct t) p v = [])"
proof -
  have members: "set (map kindStruct
    [NodeType.Copyable, NodeType.Divider, NodeType.Heading, NodeType.Panel,
     NodeType.Spinner, NodeType.Text, NodeType.Button, NodeType.Input, NodeType.Form])
    = range kindStruct"
    unfolding NodeType_UNIV by simp
  show ?thesis
    unfolding ComponentStruct_members run_SUnion_Nil members by blast
qed

lemma NodeType_value_inj: "NodeType_value a = NodeType_value b \<Longrightarrow> a = b"
  by (cases a; cases b) simp_all

lemma kindStruct_type:
  "\<exists>knowns. kindStruct t = SObject knowns \<and> (''type'', SLiteral (NodeType_value t)) \<in> set knowns"
  by (cases t) (simp_all add: kind_structs)

lemma run_kindStruct_tag:
  assumes "run (kindStruct t) p v = []"
  shows "property v ''type'' = Some (JString (NodeType_value t))"
proof -
  from kindStruct_type obtain knowns where
    k: "kindStruct t = SObject knowns" "(''type'', SLiteral (NodeType_value t)) \<in> set knowns"
    by blast
  from assms k have "run (SLiteral (NodeType_value t)) (p @ [Field ''type'']) (property v ''type'') = []"
    unfolding k(1) run_SObject_Nil by fastforce
  then show ?thesis by (simp split: if_splits)
qed

lemma run_kindStruct_unknowns:
  assumes "run (kindStruct t) p v = []"
  shows "set (Object_keys v) \<subseteq> fst ` set (schema (kindStruct t))"
proof -
  from kindStruct_type obtain knowns where k: "kindStruct t = SObject knowns"
    by blast
  from assms have "unknowns knowns v = []"
    unfolding k run_SObject_Nil by simp
  then show ?thesis
    by (auto simp: k unknowns_def filter_empty_conv)
qed

lemma run_ComponentStruct_tag:
  assumes "run ComponentStruct p v = []"
    and "property v ''type'' = Some (JString (NodeType_value t))"
  shows "run (kindStruct t) p v = []"
proof -
  from assms(1) obtain t' where t': "run (kindStruct t') p v = []"
    unfolding run_ComponentStruct_Nil by blast
  from run_kindStruct_tag [OF t'] assms(2) have "t' = t"
    by (simp add: NodeType_value_inj)
  with t' show ?thesis by simp
qed

lemma validate_Inl: "run S [] (Some v) \<noteq> [] \<Longrightarrow>
  validate v S = Inl \<lparr>failure = hd (run S [] (Some v)), failures = run S [] (Some v)\<rparr>"
  by (cases "run S [] (Some v)") (simp_all add: validate_def)

text \<open>
  C6. The union is closed over the nine kinds: a raw value whose \<^verbatim>\<open>type\<close> is not
  the tag of one of the nine kinds (for example \<^verbatim>\<open>{ type: "bogus" }\<close>, or a value
  with no \<^verbatim>\<open>type\<close> at all) fails validation, and validation returns an error, not
  a component.
\<close>

theorem ComponentStruct_rejects_unknown_type:
  assumes "\<And>t. property (Some raw) ''type'' \<noteq> Some (JString (NodeType_value t))"
  shows "\<not> is_value raw ComponentStruct \<and> (\<exists>error. validate raw ComponentStruct = Inl error)"
proof -
  have "run ComponentStruct [] (Some raw) \<noteq> []"
    using assms run_kindStruct_tag unfolding run_ComponentStruct_Nil by blast
  then show ?thesis
    using validate_Inl [of ComponentStruct raw] by (simp add: is_value_run)
qed

theorem ComponentStruct_rejects_unknown_type_witness:
  "\<not> is_value (JObject [(''type'', JString ''bogus'')]) ComponentStruct
   \<and> (\<exists>error. validate (JObject [(''type'', JString ''bogus'')]) ComponentStruct = Inl error)"
proof -
  have "property (Some (JObject [(''type'', JString ''bogus'')])) ''type''
      \<noteq> Some (JString (NodeType_value t))" for t
    by (cases t) (simp_all add: property_def)
  from ComponentStruct_rejects_unknown_type [OF this] show ?thesis .
qed

subsection \<open>Fields outside the contract of a kind\<close>

lemma is_value_kindStruct:
  "is_value raw (kindStruct kind) \<longleftrightarrow>
     isObject (Some raw)
     \<and> (\<forall>(k, S) \<in> set (schema (kindStruct kind)). run S [] (property (Some raw) k) = [])
     \<and> set (Object_keys (Some raw)) \<subseteq> fst ` set (schema (kindStruct kind))"
proof -
  from kindStruct_type obtain knowns where k: "kindStruct kind = SObject knowns"
    by blast
  have "unknowns knowns (Some raw) = [] \<longleftrightarrow> set (Object_keys (Some raw)) \<subseteq> fst ` set knowns"
    by (auto simp: unknowns_def filter_empty_conv)
  moreover have "(\<forall>kS \<in> set knowns. run (snd kS) ([] @ [Field (fst kS)]) (property (Some raw) (fst kS)) = [])
    \<longleftrightarrow> (\<forall>(k, S) \<in> set knowns. run S [] (property (Some raw) k) = [])"
    using run_path_irrelevant by (simp add: case_prod_beta) blast
  ultimately show ?thesis
    unfolding is_value_run k run_SObject_Nil by simp
qed



subsection \<open>The value of an input is optional\<close>

lemma property_filter:
  "property (Some (JObject (filter (\<lambda>(k, x). k \<noteq> a) kvs))) k
     = (if k = a then None else property (Some (JObject kvs)) k)"
  by (induction kvs) (auto simp: property_def)

lemma Object_keys_filter:
  "set (Object_keys (Some (JObject (filter P kvs)))) \<subseteq> set (Object_keys (Some (JObject kvs)))"
  by (auto simp: Object_keys_def)

text \<open>
  C2. Validation accepts an input with the \<^verbatim>\<open>value\<close> field missing: a valid input
  object stays valid, for \<open>InputStruct\<close> and for the union, when its \<^verbatim>\<open>value\<close> is
  removed. For an input whose value is omitted \<open>constructState\<close> sets the key of its name
  to the empty string (the key is present), and for an input with a value it sets the key
  to that string.
\<close>

theorem Input_value_optional:
  assumes "is_value (JObject entries) InputStruct"
  shows "is_value (JObject (filter (\<lambda>(k, x). k \<noteq> ''value'') entries)) InputStruct
    \<and> is_value (JObject (filter (\<lambda>(k, x). k \<noteq> ''value'') entries)) ComponentStruct
    \<and> constructState state (Input (i\<lparr>Input.value := None\<rparr>)) = state(Input.name i \<mapsto> Str [])
    \<and> constructState state (Input (i\<lparr>Input.value := Some v\<rparr>)) = state(Input.name i \<mapsto> Str v)"
proof -
  let ?without = "JObject (filter (\<lambda>(k, x). k \<noteq> ''value'') entries)"
  from assms have valid: "is_value (JObject entries) (kindStruct NodeType.Input)" by simp
  have "is_value ?without (kindStruct NodeType.Input)"
    unfolding is_value_kindStruct
  proof (intro conjI)
    show "isObject (Some ?without)" by simp
    show "\<forall>(k, S) \<in> set (schema (kindStruct NodeType.Input)).
        run S [] (property (Some ?without) k) = []"
      using valid [unfolded is_value_kindStruct]
      by (simp add: InputStruct_eq property_filter)
    show "set (Object_keys (Some ?without)) \<subseteq> fst ` set (schema (kindStruct NodeType.Input))"
      using valid [unfolded is_value_kindStruct] Object_keys_filter by blast
  qed
  then have input: "is_value ?without InputStruct" by simp
  then have "is_value ?without ComponentStruct"
    unfolding is_value_run run_ComponentStruct_Nil
    by (intro exI [of _ NodeType.Input]) simp
  with input show ?thesis by simp
qed

theorem Input_value_optional_witness:
  "is_value (JObject [(''type'', JString ''input''), (''name'', JString ''a'')]) ComponentStruct
   \<and> constructState Map.empty
        (Input \<lparr>Input.value = None, name = ''a'', inputType = None, placeholder = None,
                label = None\<rparr>)
      = [''a'' \<mapsto> Str '''']"
proof -
  let ?entries = "[(''type'', JString ''input''), (''value'', JString ''x''), (''name'', JString ''a'')]"
  have "is_value (JObject ?entries) InputStruct"
    by (simp add: is_value_run InputStruct_eq property_def unknowns_def Object_keys_def)
  from Input_value_optional [OF this, of Map.empty
      "\<lparr>Input.value = None, name = ''a'', inputType = None, placeholder = None, label = None\<rparr>"
      "''x''"]
  show ?thesis by simp
qed

subsection \<open>The failures of a validation\<close>

lemma run_SUnion_head:
  "run (SUnion Ss) p v \<noteq> [] \<Longrightarrow>
   hd (run (SUnion Ss) p v) = \<lparr>Failure.value = v, type = ''union'', path = p\<rparr>"
  using run_SUnion_Cons [of Ss p v] by simp

lemma run_SUnion_first:
  "run (SUnion Ss) p v \<noteq> [] \<Longrightarrow>
   \<lparr>Failure.value = v, type = ''union'', path = p\<rparr> \<in> set (run (SUnion Ss) p v)"
  using run_SUnion_Cons [of Ss p v] by simp

lemma run_SUnion_member:
  "run (SUnion Ss) p v \<noteq> [] \<Longrightarrow> S \<in> set Ss \<Longrightarrow> set (run S p v) \<subseteq> set (run (SUnion Ss) p v)"
  using run_SUnion_Cons [of Ss p v] by auto

lemma run_SObject_entry:
  "isObject v \<Longrightarrow> (k, S) \<in> set knowns \<Longrightarrow>
   set (run S (p @ [Field k]) (property v k)) \<subseteq> set (run (SObject knowns) p v)"
  by force

lemma run_SArray_element:
  "i < length xs \<Longrightarrow>
   set (run E (p @ [Index i]) (Some (xs ! i))) \<subseteq> set (run (SArray E) p (Some (JArray xs)))"
  by force

lemma property_Some_isObject: "property v k = Some x \<Longrightarrow> isObject v"
  by (cases v rule: isObject.cases) (simp_all add: property_def)

lemma children_failure:
  assumes ch: "property v ''children'' = Some (JArray children)"
    and i: "i < length children"
    and bad: "run E [] (Some (children ! i)) \<noteq> []"
    and E: "E = SUnion Ss"
    and knowns: "(''children'', SArray E) \<in> set knowns"
  shows "\<lparr>Failure.value = Some (children ! i), type = ''union'',
          path = p @ [Field ''children'', Index i]\<rparr> \<in> set (run (SObject knowns) p v)"
proof -
  from bad have "run E ((p @ [Field ''children'']) @ [Index i]) (Some (children ! i)) \<noteq> []"
    using run_path_irrelevant by blast
  then have "\<lparr>Failure.value = Some (children ! i), type = ''union'',
        path = (p @ [Field ''children'']) @ [Index i]\<rparr>
      \<in> set (run E ((p @ [Field ''children'']) @ [Index i]) (Some (children ! i)))"
    unfolding E by (rule run_SUnion_first)
  also have "\<dots> \<subseteq> set (run (SArray E) (p @ [Field ''children'']) (Some (JArray children)))"
    using i by (rule run_SArray_element)
  also have "\<dots> \<subseteq> set (run (SObject knowns) p v)"
    using run_SObject_entry [OF property_Some_isObject [OF ch] knowns, of p] ch by simp
  finally show ?thesis by simp
qed

lemma run_ComponentStruct_unknown_tag:
  assumes "\<And>t. property v ''type'' \<noteq> Some (JString (NodeType_value t))"
  shows "run ComponentStruct p v \<noteq> []"
  using assms run_kindStruct_tag unfolding run_ComponentStruct_Nil by blast

lemma bogus_invalid: "run ComponentStruct p (Some (JObject [(''type'', JString ''bogus'')])) \<noteq> []"
proof (rule run_ComponentStruct_unknown_tag)
  fix t
  show "property (Some (JObject [(''type'', JString ''bogus'')])) ''type''
      \<noteq> Some (JString (NodeType_value t))"
    by (cases t) (simp_all add: property_def)
qed



lemma tag_not_kind:
  assumes "property (Some raw) ''type'' = Some (JString tag)" and "tag \<noteq> NodeType_value t"
  shows "\<not> is_value raw (kindStruct t)"
  using run_kindStruct_tag [of t "[]" "Some raw"] assms by (auto simp: is_value_run)

lemma property_Some_key: "property v k = Some x \<Longrightarrow> k \<in> set (Object_keys v)"
  by (auto simp: property_def Object_keys_def dest: map_of_SomeD intro: rev_image_eqI)

lemma invalid_child_invalid_parent:
  assumes ch: "property v ''children'' = Some (JArray children)"
    and i: "i < length children"
    and bad: "run ComponentStruct q (Some (children ! i)) \<noteq> []"
  shows "run ComponentStruct p v \<noteq> []"
proof
  assume "run ComponentStruct p v = []"
  then obtain t where t: "run (kindStruct t) p v = []"
    unfolding run_ComponentStruct_Nil by blast
  from run_kindStruct_unknowns [OF t] property_Some_key [OF ch]
  have key: "''children'' \<in> fst ` set (schema (kindStruct t))" by blast
  then consider "t = NodeType.Panel" | "t = NodeType.Form"
    by (cases t) (simp_all add: kind_structs)
  then show False
  proof cases
    case 1
    from t have "run (SArray SLazy) (p @ [Field ''children'']) (property v ''children'') = []"
      unfolding 1 kindStruct.simps PanelStruct_eq run_SObject_Nil by simp
    then have "run SLazy ((p @ [Field ''children'']) @ [Index i]) (Some (children ! i)) = []"
      unfolding ch run_SArray_Nil using i by simp
    then show False using bad run_path_irrelevant by auto
  next
    case 2
    from t have "run (SArray FormComponentStruct) (p @ [Field ''children'']) (property v ''children'') = []"
      unfolding 2 kindStruct.simps FormStruct_eq run_SObject_Nil by simp
    then have "run FormComponentStruct ((p @ [Field ''children'']) @ [Index i]) (Some (children ! i)) = []"
      unfolding ch run_SArray_Nil using i by simp
    then have "run (kindStruct NodeType.Input) ((p @ [Field ''children'']) @ [Index i]) (Some (children ! i)) = []
        \<or> run (kindStruct NodeType.Button) ((p @ [Field ''children'']) @ [Index i]) (Some (children ! i)) = []"
      unfolding FormComponentStruct_def run_SUnion_Nil by simp
    then have "run ComponentStruct ((p @ [Field ''children'']) @ [Index i]) (Some (children ! i)) = []"
      unfolding run_ComponentStruct_Nil by blast
    then show False using bad run_path_irrelevant by blast
  qed
qed



lemma validate_ComponentStruct_Inl:
  assumes "run ComponentStruct [] (Some v) \<noteq> []"
  shows "validate v ComponentStruct
    = Inl \<lparr>failure = \<lparr>Failure.value = Some v, type = ''union'', path = []\<rparr>,
           failures = run ComponentStruct [] (Some v)\<rparr>"
proof -
  have "hd (run ComponentStruct [] (Some v)) = \<lparr>Failure.value = Some v, type = ''union'', path = []\<rparr>"
    using assms unfolding ComponentStruct_def by (rule run_SUnion_head)
  then show ?thesis using validate_Inl [OF assms] by simp
qed

lemma Form_child_failure:
  assumes tag: "property (Some raw) ''type'' = Some (JString (NodeType_value NodeType.Form))"
    and ch: "property (Some raw) ''children'' = Some (JArray children)"
    and i: "i < length children"
    and not_input: "\<not> is_value (children ! i) InputStruct"
    and not_button: "\<not> is_value (children ! i) ButtonStruct"
  shows "run ComponentStruct [] (Some raw) \<noteq> []
    \<and> \<lparr>Failure.value = Some (children ! i), type = ''union'',
         path = [Field ''children'', Index i]\<rparr> \<in> set (run ComponentStruct [] (Some raw))"
proof -
  have bad: "run FormComponentStruct [] (Some (children ! i)) \<noteq> []"
    using not_input not_button
    unfolding FormComponentStruct_def run_SUnion_Nil by (simp add: is_value_run)
  have in_form: "\<lparr>Failure.value = Some (children ! i), type = ''union'',
      path = [] @ [Field ''children'', Index i]\<rparr> \<in> set (run FormStruct [] (Some raw))"
    unfolding FormStruct_eq
    by (rule children_failure [OF ch i bad FormComponentStruct_def]) simp
  have invalid: "run ComponentStruct [] (Some raw) \<noteq> []"
  proof
    assume "run ComponentStruct [] (Some raw) = []"
    from run_ComponentStruct_tag [OF this tag] in_form show False by simp
  qed
  have "FormStruct \<in> set [CopyableStruct, DividerStruct, HeadingStruct, PanelStruct,
      SpinnerStruct, TextStruct, ButtonStruct, InputStruct, FormStruct]"
    by simp
  from run_SUnion_member [OF invalid [unfolded ComponentStruct_def] this] in_form
  have "\<lparr>Failure.value = Some (children ! i), type = ''union'',
      path = [Field ''children'', Index i]\<rparr> \<in> set (run ComponentStruct [] (Some raw))"
    unfolding ComponentStruct_def by auto
  with invalid show ?thesis by simp
qed

lemma form_of_panel_child:
  "property (Some (JObject [(''type'', JString ''form''), (''name'', JString ''f''),
       (''children'', JArray [JObject [(''type'', JString ''panel''), (''children'', JArray [])]])]))
     ''type'' = Some (JString (NodeType_value NodeType.Form))"
  "property (Some (JObject [(''type'', JString ''form''), (''name'', JString ''f''),
       (''children'', JArray [JObject [(''type'', JString ''panel''), (''children'', JArray [])]])]))
     ''children'' = Some (JArray [JObject [(''type'', JString ''panel''), (''children'', JArray [])]])"
  "\<not> is_value ([JObject [(''type'', JString ''panel''), (''children'', JArray [])]] ! 0) InputStruct"
  "\<not> is_value ([JObject [(''type'', JString ''panel''), (''children'', JArray [])]] ! 0) ButtonStruct"
proof -
  let ?panel = "JObject [(''type'', JString ''panel''), (''children'', JArray [])]"
  have ptag: "property (Some ?panel) ''type'' = Some (JString ''panel'')"
    by (simp add: property_def)
  show "\<not> is_value ([?panel] ! 0) InputStruct"
    using tag_not_kind [OF ptag, of NodeType.Input] by simp
  show "\<not> is_value ([?panel] ! 0) ButtonStruct"
    using tag_not_kind [OF ptag, of NodeType.Button] by simp
qed (simp_all add: property_def)

lemma form_of_number_name_invalid:
  "run ComponentStruct []
     (Some (JObject [(''type'', JString ''form''), (''name'', JNumber 5), (''children'', JArray [])]))
   \<noteq> []"
proof
  let ?ex = "JObject [(''type'', JString ''form''), (''name'', JNumber 5), (''children'', JArray [])]"
  assume "run ComponentStruct [] (Some ?ex) = []"
  then have "run (kindStruct NodeType.Form) [] (Some ?ex) = []"
    by (rule run_ComponentStruct_tag) (simp add: property_def)
  then show False
    unfolding kindStruct.simps FormStruct_eq run_SObject_Nil by (simp add: property_def)
qed

text \<open>
  C5, as the spec states it, fails in one part: there is no structural-violation error
  apart from a type mismatch. For a form with a panel among its children and for a form
  whose name is a number, validation reports a failure of the same type and path, the
  failure of the union at the root.
\<close>

theorem Form_child_error_is_root_union:
  "validate (JObject [(''type'', JString ''form''), (''name'', JString ''f''),
       (''children'', JArray [JObject [(''type'', JString ''panel''), (''children'', JArray [])]])])
     ComponentStruct
   = Inl \<lparr>failure =
       \<lparr>Failure.value = Some (JObject [(''type'', JString ''form''), (''name'', JString ''f''),
          (''children'', JArray [JObject [(''type'', JString ''panel''), (''children'', JArray [])]])]),
        type = ''union'', path = []\<rparr>,
       failures = run ComponentStruct [] (Some (JObject [(''type'', JString ''form''), (''name'', JString ''f''),
          (''children'', JArray [JObject [(''type'', JString ''panel''), (''children'', JArray [])]])]))\<rparr>
   \<and> validate (JObject [(''type'', JString ''form''), (''name'', JNumber 5), (''children'', JArray [])])
     ComponentStruct
   = Inl \<lparr>failure =
       \<lparr>Failure.value = Some (JObject [(''type'', JString ''form''), (''name'', JNumber 5),
          (''children'', JArray [])]),
        type = ''union'', path = []\<rparr>,
       failures = run ComponentStruct [] (Some (JObject [(''type'', JString ''form''),
          (''name'', JNumber 5), (''children'', JArray [])]))\<rparr>"
  using validate_ComponentStruct_Inl [OF form_of_number_name_invalid]
    validate_ComponentStruct_Inl
      [OF Form_child_failure [OF form_of_panel_child(1,2) _ form_of_panel_child(3,4), THEN conjunct1]]
  by simp

text \<open>
  C5, amended. Validation of a form requires every entry of its \<^verbatim>\<open>children\<close> to be
  valid as an input or as a button: a raw value with the tag of a form which has a child
  that is valid neither for \<open>InputStruct\<close> nor for \<open>ButtonStruct\<close> (a panel, for
  example) fails validation. The child is not dropped or flattened: validation returns
  an error. The failure that the error reports is the failure of the union at the root
  (type \<^verbatim>\<open>union\<close>, empty path, the whole raw value), as for any other invalid value;
  the failure of the union of input and button at the path of the child is listed among
  the failures of the error.
\<close>

theorem Form_child_outside_FormComponent_rejected:
  assumes tag: "property (Some raw) ''type'' = Some (JString (NodeType_value NodeType.Form))"
    and ch: "property (Some raw) ''children'' = Some (JArray children)"
    and i: "i < length children"
    and not_input: "\<not> is_value (children ! i) InputStruct"
    and not_button: "\<not> is_value (children ! i) ButtonStruct"
  shows "\<not> is_value raw ComponentStruct
    \<and> validate raw ComponentStruct
      = Inl \<lparr>failure = \<lparr>Failure.value = Some raw, type = ''union'', path = []\<rparr>,
             failures = run ComponentStruct [] (Some raw)\<rparr>
    \<and> \<lparr>Failure.value = Some (children ! i), type = ''union'',
         path = [Field ''children'', Index i]\<rparr> \<in> set (run ComponentStruct [] (Some raw))"
  using Form_child_failure [OF assms]
    validate_ComponentStruct_Inl [of raw]
  by (simp add: is_value_run)

theorem Form_child_outside_FormComponent_rejected_witness:
  "\<not> is_value (JObject [(''type'', JString ''form''), (''name'', JString ''f''),
       (''children'', JArray [JObject [(''type'', JString ''panel''), (''children'', JArray [])]])])
     ComponentStruct
   \<and> (\<exists>error. validate (JObject [(''type'', JString ''form''), (''name'', JString ''f''),
       (''children'', JArray [JObject [(''type'', JString ''panel''), (''children'', JArray [])]])])
       ComponentStruct = Inl error
     \<and> failure error
       = \<lparr>Failure.value = Some (JObject [(''type'', JString ''form''), (''name'', JString ''f''),
          (''children'', JArray [JObject [(''type'', JString ''panel''), (''children'', JArray [])]])]),
          type = ''union'', path = []\<rparr>
     \<and> \<lparr>Failure.value = Some (JObject [(''type'', JString ''panel''), (''children'', JArray [])]),
          type = ''union'', path = [Field ''children'', Index 0]\<rparr> \<in> set (failures error))"
  using Form_child_outside_FormComponent_rejected [OF form_of_panel_child(1,2) _ form_of_panel_child(3,4)] by simp

subsection \<open>The order of the failures\<close>




lemma divider_valid:
  "run ComponentStruct p (Some (JObject [(''type'', JString ''divider'')])) = []"
  unfolding run_ComponentStruct_Nil
  by (intro exI [of _ NodeType.Divider])
    (simp add: DividerStruct_eq property_def unknowns_def Object_keys_def)

lemma valid_child_listed:
  "is_value (JObject [(''type'', JString ''divider'')]) ComponentStruct
   \<and> \<lparr>Failure.value = Some (JObject [(''type'', JString ''divider'')]), type = ''union'',
        path = [Field ''children'', Index 0]\<rparr>
     \<in> set (run ComponentStruct []
         (Some (JObject [(''type'', JString ''panel''),
            (''children'', JArray [JObject [(''type'', JString ''divider'')],
                                   JObject [(''type'', JString ''bogus'')]])])))"
proof -
  let ?divider = "JObject [(''type'', JString ''divider'')]"
  let ?bogus = "JObject [(''type'', JString ''bogus'')]"
  let ?ex = "JObject [(''type'', JString ''panel''), (''children'', JArray [?divider, ?bogus])]"
  have ch: "property (Some ?ex) ''children'' = Some (JArray [?divider, ?bogus])"
    by (simp add: property_def)
  have dtag: "property (Some ?divider) ''type'' = Some (JString ''divider'')"
    by (simp add: property_def)
  have "\<not> is_value ?divider (kindStruct NodeType.Input)" "\<not> is_value ?divider (kindStruct NodeType.Button)"
    using tag_not_kind [OF dtag, of NodeType.Input] tag_not_kind [OF dtag, of NodeType.Button]
    by simp_all
  then have bad: "run FormComponentStruct [] (Some ([?divider, ?bogus] ! 0)) \<noteq> []"
    unfolding FormComponentStruct_def run_SUnion_Nil by (simp add: is_value_run)
  have "\<lparr>Failure.value = Some ([?divider, ?bogus] ! 0), type = ''union'',
        path = [] @ [Field ''children'', Index 0]\<rparr> \<in> set (run FormStruct [] (Some ?ex))"
    unfolding FormStruct_eq
    by (rule children_failure [OF ch _ bad FormComponentStruct_def]) simp_all
  moreover have invalid: "run ComponentStruct [] (Some ?ex) \<noteq> []"
    using invalid_child_invalid_parent [OF ch, of 1 "[]" "[]"] bogus_invalid [of "[]"] by simp
  have "set (run FormStruct [] (Some ?ex)) \<subseteq> set (run ComponentStruct [] (Some ?ex))"
    using run_SUnion_member [OF invalid [unfolded ComponentStruct_def], of FormStruct]
    unfolding ComponentStruct_def by simp
  ultimately show ?thesis using divider_valid [of "[]"] by (auto simp: is_value_run)
qed





subsection \<open>The scenario of the spec is valid\<close>

text \<open>Validation returns the raw tree of the scenario as it is.\<close>

lemma scenario_valid:
  "validate
     (JObject [(''type'', JString ''panel''), (''children'', JArray
        [JObject [(''type'', JString ''text''), (''value'', JString ''Hi'')],
         JObject [(''type'', JString ''form''), (''name'', JString ''f''), (''children'', JArray
           [JObject [(''type'', JString ''input''), (''name'', JString ''a''), (''value'', JString ''x'')],
            JObject [(''type'', JString ''button''), (''name'', JString ''b''), (''value'', JString ''Go'')]])]])])
     ComponentStruct
   = Inr (JObject [(''type'', JString ''panel''), (''children'', JArray
        [JObject [(''type'', JString ''text''), (''value'', JString ''Hi'')],
         JObject [(''type'', JString ''form''), (''name'', JString ''f''), (''children'', JArray
           [JObject [(''type'', JString ''input''), (''name'', JString ''a''), (''value'', JString ''x'')],
            JObject [(''type'', JString ''button''), (''name'', JString ''b''), (''value'', JString ''Go'')]])]])])"
  by (simp add: validate_def ComponentStruct_def FormComponentStruct_def kind_structs
      property_def unknowns_def Object_keys_def Let_def)

end
